theory Spec2Isabelle
  imports Main
begin

section \<open>Strings and numbers as the TypeScript code uses them\<close>

text \<open>
  Timestamps (readings of \<open>Date.now()\<close>, in milliseconds), page numbers, limits,
  counters and delays are JavaScript numbers that hold integers on every path of the
  program; they are modelled as \<open>int\<close>. Strings are ASCII strings: \<open>toLowerCase\<close> and
  \<open>trim\<close> are modelled on the ASCII range. \<open>numberToString\<close> is the text a template
  literal gives an integer.
\<close>

definition toLowerCase :: "string \<Rightarrow> string" where
  "toLowerCase s =
     map (\<lambda>c. case map_of (zip ''ABCDEFGHIJKLMNOPQRSTUVWXYZ'' ''abcdefghijklmnopqrstuvwxyz'') c of
                Some lower \<Rightarrow> lower
              | None \<Rightarrow> c) s"

definition isWhitespace :: "char \<Rightarrow> bool" where
  "isWhitespace c =
     (c \<in> set [CHR 0x09, CHR 0x0A, CHR 0x0B, CHR 0x0C, CHR 0x0D, CHR '' ''])"

definition trim :: "string \<Rightarrow> string" where
  "trim s = rev (dropWhile isWhitespace (rev (dropWhile isWhitespace s)))"

definition digit_char :: "nat \<Rightarrow> char" where
  "digit_char d = ''0123456789'' ! (d mod 10)"

fun decimal :: "nat \<Rightarrow> string" where
  "decimal n =
     (if n < 10 then [digit_char n]
      else decimal (n div 10) @ [digit_char (n mod 10)])"

declare decimal.simps [simp del]

definition numberToString :: "int \<Rightarrow> string" where
  "numberToString i =
     (if i < 0 then CHR ''-'' # decimal (nat (- i)) else decimal (nat i))"

section \<open>ScrapingLockService (services/queue/scraping-lock.service.ts)\<close>

record LockInfo =
  query :: string
  page :: int
  limit :: int
  startTime :: int
  lockId :: string

text \<open>The private field \<open>locks: Map<string, LockInfo>\<close>.\<close>

type_synonym lock_map = "string \<rightharpoonup> LockInfo"

definition LOCK_TIMEOUT_MS :: int where
  "LOCK_TIMEOUT_MS = 15 * 60 * 1000"

definition getLockKey :: "string \<Rightarrow> int \<Rightarrow> int \<Rightarrow> string" where
  "getLockKey q p l =
     trim (toLowerCase q) @ '':page:'' @ numberToString p @ '':limit:'' @ numberToString l"

text \<open>
  \<open>acquireLock\<close>. The method reads the clock up to three times: \<open>tCheck\<close> is the reading
  the age of an existing lock is computed from, \<open>tId\<close> the one the lock id starts with,
  \<open>tStart\<close> the one stored as \<open>startTime\<close>. \<open>rnd\<close> is the suffix
  \<open>Math.random().toString(36).substring(7)\<close> of the lock id. The result pairs the
  returned value (\<open>None\<close> for \<open>null\<close>) with the lock map after the call.
\<close>

definition acquireLock ::
  "lock_map \<Rightarrow> int \<Rightarrow> int \<Rightarrow> int \<Rightarrow> string \<Rightarrow> string \<Rightarrow> int \<Rightarrow> int
     \<Rightarrow> string option \<times> lock_map" where
  "acquireLock locks tCheck tId tStart rnd q p l =
     (let lockKey = getLockKey q p l;
          newId = numberToString tId @ ''-'' @ rnd;
          created = \<lparr>query = q, page = p, limit = l, startTime = tStart, lockId = newId\<rparr>
      in case locks lockKey of
           Some existingLock \<Rightarrow>
             (let elapsed = tCheck - startTime existingLock
              in if elapsed > LOCK_TIMEOUT_MS
                 then (Some newId, (locks(lockKey := None))(lockKey \<mapsto> created))
                 else (None, locks))
         | None \<Rightarrow> (Some newId, locks(lockKey \<mapsto> created)))"

text \<open>\<open>releaseLock\<close>: the boolean result and the lock map after the call.\<close>

definition releaseLock ::
  "lock_map \<Rightarrow> string \<Rightarrow> int \<Rightarrow> int \<Rightarrow> string \<Rightarrow> bool \<times> lock_map" where
  "releaseLock locks q p l lid =
     (let lockKey = getLockKey q p l
      in case locks lockKey of
           None \<Rightarrow> (False, locks)
         | Some existingLock \<Rightarrow>
             if lockId existingLock \<noteq> lid then (False, locks)
             else (True, locks(lockKey := None)))"

text \<open>\<open>isLocked\<close>: it deletes an expired lock as a side effect.\<close>

definition isLocked :: "lock_map \<Rightarrow> int \<Rightarrow> string \<Rightarrow> int \<Rightarrow> int \<Rightarrow> bool \<times> lock_map" where
  "isLocked locks now q p l =
     (let lockKey = getLockKey q p l
      in case locks lockKey of
           None \<Rightarrow> (False, locks)
         | Some lock \<Rightarrow>
             (let elapsed = now - startTime lock
              in if elapsed > LOCK_TIMEOUT_MS then (False, locks(lockKey := None))
                 else (True, locks)))"

text \<open>A lock is live at \<open>now\<close> when the service does not yet treat it as expired.\<close>

definition live :: "int \<Rightarrow> LockInfo \<Rightarrow> bool" where
  "live now info = (\<not> now - startTime info > LOCK_TIMEOUT_MS)"

section \<open>RetryOrchestrator (retry-orchestrator.service.ts)\<close>

text \<open>A thrown value (\<open>unknown\<close> in the source) is represented by its message.\<close>

type_synonym err = string

text \<open>What a call of the \<open>onRetry\<close> hook does: it completes, or it throws.\<close>

datatype hook_result = HookDone | HookThrows err

record RetryOptions =
  maxAttempts :: int
  initialDelay :: int
  maxDelay :: int
  backoffMultiplier :: int
  onRetry :: "(int \<Rightarrow> err \<Rightarrow> hook_result) option"

text \<open>\<open>Partial<RetryOptions>\<close>: every field may be left out.\<close>

record PartialRetryOptions =
  p_maxAttempts :: "int option"
  p_initialDelay :: "int option"
  p_maxDelay :: "int option"
  p_backoffMultiplier :: "int option"
  p_onRetry :: "(int \<Rightarrow> err \<Rightarrow> hook_result) option"

record 'a RetryResult =
  success :: bool
  data :: "'a option"
  error :: "err option"
  attempts :: int
  totalDuration :: int

definition defaultOptions :: RetryOptions where
  "defaultOptions =
     \<lparr>maxAttempts = 3, initialDelay = 1000, maxDelay = 10000, backoffMultiplier = 2,
      onRetry = None\<rparr>"

text \<open>The object spread \<open>{ ...this.defaultOptions, ...options }\<close>.\<close>

definition mergeOptions :: "RetryOptions \<Rightarrow> PartialRetryOptions \<Rightarrow> RetryOptions" where
  "mergeOptions d opt =
     \<lparr>maxAttempts = (case p_maxAttempts opt of Some v \<Rightarrow> v | None \<Rightarrow> maxAttempts d),
      initialDelay = (case p_initialDelay opt of Some v \<Rightarrow> v | None \<Rightarrow> initialDelay d),
      maxDelay = (case p_maxDelay opt of Some v \<Rightarrow> v | None \<Rightarrow> maxDelay d),
      backoffMultiplier =
        (case p_backoffMultiplier opt of Some v \<Rightarrow> v | None \<Rightarrow> backoffMultiplier d),
      onRetry = (case p_onRetry opt of Some h \<Rightarrow> Some h | None \<Rightarrow> onRetry d)\<rparr>"

text \<open>
  \<open>calculateDelay\<close>: \<open>initialDelay * Math.pow(backoffMultiplier, attempt - 1)\<close>, capped by
  \<open>maxDelay\<close>. The loop only calls it with \<open>attempt \<ge> 1\<close>.
\<close>

definition calculateDelay :: "int \<Rightarrow> RetryOptions \<Rightarrow> int" where
  "calculateDelay attempt options =
     (let delay = initialDelay options * backoffMultiplier options ^ nat (attempt - 1)
      in min delay (maxDelay options))"

text \<open>
  What \<open>executeWithRetry\<close> does, in order: it invokes the operation for an attempt, it
  invokes the \<open>onRetry\<close> hook after a failed attempt, it sleeps for a delay.
\<close>

datatype retry_event = Called int | Hooked int | Slept int

text \<open>
  The \<open>for\<close> loop of \<open>executeWithRetry\<close>, from \<open>attempt\<close> on. \<open>fn k\<close> is what the
  invocation of the operation at attempt \<open>k\<close> does: \<open>Inr d\<close> when it resolves with \<open>d\<close>,
  \<open>Inl e\<close> when it throws \<open>e\<close>. \<open>duration\<close> is \<open>Date.now() - startTime\<close> when the
  function returns. The result is \<open>Inr\<close> of the returned record, or \<open>Inl\<close> of an exception
  that leaves \<open>executeWithRetry\<close>; the hook is awaited inside the \<open>catch\<close> block, with no
  handler around it.
\<close>

function retryLoop ::
  "RetryOptions \<Rightarrow> (int \<Rightarrow> err + 'a) \<Rightarrow> int \<Rightarrow> int \<Rightarrow> err option
     \<Rightarrow> (err + 'a RetryResult) \<times> retry_event list" where
  "retryLoop opts fn duration attempt lastError =
     (if attempt \<le> maxAttempts opts then
        (case fn attempt of
           Inr d \<Rightarrow>
             (Inr \<lparr>success = True, data = Some d, error = None, attempts = attempt,
                   totalDuration = duration\<rparr>,
              [Called attempt])
         | Inl e \<Rightarrow>
             if attempt < maxAttempts opts then
               (let delay = calculateDelay attempt opts
                in case onRetry opts of
                     Some hook \<Rightarrow>
                       (case hook attempt e of
                          HookThrows x \<Rightarrow> (Inl x, [Called attempt, Hooked attempt])
                        | HookDone \<Rightarrow>
                            (let (r, tr) = retryLoop opts fn duration (attempt + 1) (Some e)
                             in (r, Called attempt # Hooked attempt # Slept delay # tr)))
                   | None \<Rightarrow>
                       (let (r, tr) = retryLoop opts fn duration (attempt + 1) (Some e)
                        in (r, Called attempt # Slept delay # tr)))
             else
               (let (r, tr) = retryLoop opts fn duration (attempt + 1) (Some e)
                in (r, Called attempt # tr)))
      else
        (Inr \<lparr>success = False, data = None, error = lastError, attempts = maxAttempts opts,
              totalDuration = duration\<rparr>,
         []))"
  by pat_completeness auto
termination
  by (relation "measure (\<lambda>(opts, fn, duration, attempt, lastError).
                  nat (maxAttempts opts + 1 - attempt))") auto

declare retryLoop.simps [simp del]

definition executeWithRetry ::
  "(int \<Rightarrow> err + 'a) \<Rightarrow> PartialRetryOptions \<Rightarrow> int
     \<Rightarrow> (err + 'a RetryResult) \<times> retry_event list" where
  "executeWithRetry fn options duration =
     retryLoop (mergeOptions defaultOptions options) fn duration 1 None"

text \<open>The delays slept and the number of invocations of the operation in a run.\<close>

fun delays :: "retry_event list \<Rightarrow> int list" where
  "delays [] = []"
| "delays (Slept d # tr) = d # delays tr"
| "delays (_ # tr) = delays tr"

fun invocations :: "retry_event list \<Rightarrow> int" where
  "invocations [] = 0"
| "invocations (Called _ # tr) = 1 + invocations tr"
| "invocations (_ # tr) = invocations tr"

section \<open>Records and results (types/index.ts, search.controller.ts)\<close>

text \<open>
  A \<open>BatchVehicle\<close> is an open object (\<open>[key: string]: unknown\<close>): a finite map from
  field names to values.
\<close>

datatype jsvalue = JNum int | JStr string | JBool bool | JNull

type_synonym BatchVehicle = "string \<rightharpoonup> jsvalue"

record SearchResult =
  r_success :: bool
  r_source :: string
  r_cached :: bool
  r_query :: string
  r_page :: int
  r_limit :: int
  r_returned :: int
  r_vehicles :: "BatchVehicle list option"
  r_batchId :: "string option"
  r_status :: "string option"
  r_scrapeDurationSeconds :: "int option"

section \<open>SearchController.intelligentSearch, synchronous path after a cache miss\<close>





section \<open>BatchRepository (services/repositories/batch.repository.ts)\<close>

record PageMetadata =
  m_page :: int
  m_limit :: int
  m_size :: int
  m_query :: string
  createdAt :: int
  expiresAt :: int
  m_source :: string
  scrapeDuration :: int

record PageDocument =
  metadata :: PageMetadata
  vehicles :: "BatchVehicle list"

record SearchMetadata =
  s_query :: string
  lastUpdated :: int
  searchCount :: int
  s_createdAt :: int

text \<open>
  The Firestore database, as far as the repository uses it: the documents
  \<open>searches/{query}/cache/{page}-{limit}\<close>, the metadata of the documents
  \<open>searches/{query}\<close>, and the documents \<open>jobs/{batchId}\<close> (objects with string keys).
\<close>

record firestore =
  pages :: "(string \<times> string) \<rightharpoonup> PageDocument"
  searches :: "string \<rightharpoonup> SearchMetadata"
  jobs :: "string \<rightharpoonup> (string \<rightharpoonup> jsvalue)"

text \<open>
  Every Firestore call may throw (the backend is unreachable, the document path is
  refused, ...). A fault plan says which kinds of call throw during an invocation.
\<close>

datatype fs_call = PageSet | PageGet | PageDelete | SearchGet | SearchUpdate | SearchSet | JobSet | JobGet

type_synonym fault_plan = "fs_call \<Rightarrow> bool"

definition SEVEN_DAYS_MS :: int where
  "SEVEN_DAYS_MS = 7 * 24 * 60 * 60 * 1000"

definition isDigit :: "char \<Rightarrow> bool" where
  "isDigit c = (c \<in> set ''0123456789'')"

text \<open>
  \<open>updateSearchMetadata\<close>: nothing for an empty query or a lot number (\<open>/^\d+$/\<close>); every
  error is caught and logged.
\<close>

definition updateSearchMetadata ::
  "fault_plan \<Rightarrow> int \<Rightarrow> firestore \<Rightarrow> string \<Rightarrow> int \<Rightarrow> int \<Rightarrow> int \<Rightarrow> firestore" where
  "updateSearchMetadata fault now db q p l vehicleCount =
     (let normalizedQuery = trim (toLowerCase q)
      in if normalizedQuery = [] then db
         else if list_all isDigit normalizedQuery then db
         else if fault SearchGet then db
         else (case searches db normalizedQuery of
                 Some meta \<Rightarrow>
                   if fault SearchUpdate then db
                   else db\<lparr>searches := (searches db)(normalizedQuery \<mapsto>
                          meta\<lparr>lastUpdated := now, searchCount := searchCount meta + 1\<rparr>)\<rparr>
               | None \<Rightarrow>
                   if fault SearchSet then db
                   else db\<lparr>searches := (searches db)(normalizedQuery \<mapsto>
                          \<lparr>s_query = normalizedQuery, lastUpdated = now, searchCount = 1,
                           s_createdAt = now\<rparr>)\<rparr>))"

text \<open>\<open>vehicles.map((v, index) => ({ ...v, pageIndex: index }))\<close>.\<close>

definition withPageIndex :: "BatchVehicle list \<Rightarrow> BatchVehicle list" where
  "withPageIndex vs = map (\<lambda>(index, v). v(''pageIndex'' \<mapsto> JNum (int index))) (enumerate 0 vs)"

text \<open>
  \<open>expiresAt.setDate(expiresAt.getDate() + 7)\<close> moves the date by seven calendar days of
  the process's local time zone and keeps the time of day. \<open>dstShift\<close> is by how much the
  instant it gives falls short of \<open>7 * 24\<close> hours after \<open>now\<close>: \<open>0\<close> when local time is
  UTC or no clock change falls in the week, one hour across a spring-forward change, minus
  one hour across a fall-back change.
\<close>

definition sevenDaysLater :: "int \<Rightarrow> int \<Rightarrow> int" where
  "sevenDaysLater dstShift now = now + SEVEN_DAYS_MS - dstShift"

text \<open>
  \<open>savePage\<close>: \<open>true\<close> when the page document was written, \<open>false\<close> when the write threw.
\<close>

definition savePage ::
  "fault_plan \<Rightarrow> int \<Rightarrow> int \<Rightarrow> firestore \<Rightarrow> string \<Rightarrow> int \<Rightarrow> int \<Rightarrow> BatchVehicle list \<Rightarrow> int
     \<Rightarrow> bool \<times> firestore" where
  "savePage fault now dstShift db q p l vs duration =
     (let normalizedQuery = trim (toLowerCase q);
          cacheKey = numberToString p @ ''-'' @ numberToString l;
          pageDoc = \<lparr>metadata =
                       \<lparr>m_page = p, m_limit = l, m_size = int (length vs),
                        m_query = normalizedQuery, createdAt = now,
                        expiresAt = sevenDaysLater dstShift now, m_source = ''copart'',
                        scrapeDuration = duration\<rparr>,
                     vehicles = withPageIndex vs\<rparr>
      in if fault PageSet then (False, db)
         else (True,
               updateSearchMetadata fault now
                 (db\<lparr>pages := (pages db)((normalizedQuery, cacheKey) \<mapsto> pageDoc)\<rparr>)
                 normalizedQuery p l (int (length vs))))"

text \<open>
  \<open>getPage\<close>: \<open>None\<close> for \<open>null\<close> (not found, expired, or an error). An expired document is
  deleted.
\<close>

definition getPage ::
  "fault_plan \<Rightarrow> int \<Rightarrow> firestore \<Rightarrow> string \<Rightarrow> int \<Rightarrow> int
     \<Rightarrow> BatchVehicle list option \<times> firestore" where
  "getPage fault now db q p l =
     (let normalizedQuery = trim (toLowerCase q);
          cacheKey = numberToString p @ ''-'' @ numberToString l
      in if fault PageGet then (None, db)
         else (case pages db (normalizedQuery, cacheKey) of
                 None \<Rightarrow> (None, db)
               | Some doc \<Rightarrow>
                   if expiresAt (metadata doc) < now then
                     (if fault PageDelete then (None, db)
                      else (None, db\<lparr>pages := (pages db)((normalizedQuery, cacheKey) := None)\<rparr>))
                   else (Some (vehicles doc), db)))"

subsection \<open>Job status documents\<close>

datatype job_status = Queued | Processing | Completed | Failed

fun statusName :: "job_status \<Rightarrow> string" where
  "statusName Queued = ''queued''"
| "statusName Processing = ''processing''"
| "statusName Completed = ''completed''"
| "statusName Failed = ''failed''"

text \<open>
  \<open>BatchRepository.updateJobStatus\<close>: \<open>set({ status, updatedAt, ...metadata }, { merge: true })\<close>;
  an error is logged and thrown again (\<open>Inl\<close>).
\<close>

definition updateJobStatus ::
  "fault_plan \<Rightarrow> int \<Rightarrow> firestore \<Rightarrow> string \<Rightarrow> job_status \<Rightarrow> (string \<rightharpoonup> jsvalue)
     \<Rightarrow> err + firestore" where
  "updateJobStatus fault now db batchId status meta =
     (if fault JobSet then Inl ''firestore error''
      else
        (let old = (case jobs db batchId of Some doc \<Rightarrow> doc | None \<Rightarrow> Map.empty);
             written = [''status'' \<mapsto> JStr (statusName status), ''updatedAt'' \<mapsto> JNum now] ++ meta
         in Inr (db\<lparr>jobs := (jobs db)(batchId \<mapsto> old ++ written)\<rparr>)))"

text \<open>The persisted status of a job, as \<open>getJobStatus\<close> reads it.\<close>

definition jobStatus :: "firestore \<Rightarrow> string \<Rightarrow> jsvalue option" where
  "jobStatus db batchId = (case jobs db batchId of None \<Rightarrow> None | Some doc \<Rightarrow> doc ''status'')"

definition isTerminal :: "jsvalue option \<Rightarrow> bool" where
  "isTerminal s = (s = Some (JStr ''completed'') \<or> s = Some (JStr ''failed''))"

section \<open>ScraptPressWorker (worker.ts)\<close>

text \<open>The worker's private \<open>updateJobStatus\<close>: it logs an error and goes on.\<close>

definition worker_updateJobStatus ::
  "fault_plan \<Rightarrow> int \<Rightarrow> firestore \<Rightarrow> string \<Rightarrow> job_status \<Rightarrow> (string \<rightharpoonup> jsvalue)
     \<Rightarrow> firestore" where
  "worker_updateJobStatus fault now db batchId status meta =
     (case updateJobStatus fault now db batchId status meta of
        Inl e \<Rightarrow> db
      | Inr db' \<Rightarrow> db')"

record ScrapeJobData =
  j_batchId :: string
  j_query :: string
  j_page :: int
  j_limit :: int
  j_clientIp :: "string option"
  j_apiKey :: "string option"
  j_priority :: "string option"

text \<open>
  The first step of \<open>processScrapeJob\<close>: the job is marked \<open>processing\<close>. The result is
  the database while \<open>platform.scrape\<close> is awaited, which is what a status poll reads
  during the scrape.
\<close>

definition processScrapeJob_scraping ::
  "fault_plan \<Rightarrow> int \<Rightarrow> string \<Rightarrow> firestore \<Rightarrow> ScrapeJobData \<Rightarrow> firestore" where
  "processScrapeJob_scraping fault now workerId db job =
     worker_updateJobStatus fault now db (j_batchId job) Processing
       [''workerId'' \<mapsto> JStr workerId, ''startedAt'' \<mapsto> JNum now]"

text \<open>
  \<open>processScrapeJob\<close>, one attempt of the broker. \<open>attemptsMade\<close> is \<open>job.attemptsMade\<close>,
  \<open>scrape\<close> is what \<open>platform.scrape\<close> does (\<open>Inl\<close> when it throws), \<open>duration\<close> the
  measured scrape time in seconds, \<open>dstShift\<close> the clock change \<open>savePage\<close> meets. The
  result is \<open>Some e\<close> when the method throws \<open>e\<close> again for the broker's retry, \<open>None\<close> when
  it returns.
\<close>

definition processScrapeJob ::
  "fault_plan \<Rightarrow> int \<Rightarrow> int \<Rightarrow> string \<Rightarrow> firestore \<Rightarrow> ScrapeJobData \<Rightarrow> int
     \<Rightarrow> (err + BatchVehicle list) \<Rightarrow> int \<Rightarrow> err option \<times> firestore" where
  "processScrapeJob fault now dstShift workerId db job attemptsMade scrape duration =
     (let db1 = processScrapeJob_scraping fault now workerId db job
      in case scrape of
           Inr vs \<Rightarrow>
             (let db2 = (if vs \<noteq> []
                         then snd (savePage fault now dstShift db1 (j_query job) (j_page job)
                                     (j_limit job) vs duration)
                         else db1)
              in (None,
                  worker_updateJobStatus fault now db2 (j_batchId job) Completed
                    [''vehiclesFound'' \<mapsto> JNum (int (length vs)),
                     ''scrapeDurationSeconds'' \<mapsto> JNum duration,
                     ''completedAt'' \<mapsto> JNum now]))
         | Inl e \<Rightarrow>
             (Some e,
              worker_updateJobStatus fault now db1 (j_batchId job) Failed
                [''error'' \<mapsto> JStr e, ''failedAt'' \<mapsto> JNum now,
                 ''attempt'' \<mapsto> JNum (attemptsMade + 1)]))"

section \<open>JobQueueSecurityService (services/security/job-queue-security.service.ts)\<close>

text \<open>
  The counters live in Redis behind the \<open>CacheService\<close> of cache.service.ts. Its \<open>get\<close>
  answers \<open>null\<close> when the client is not connected, when the Redis call throws and when
  the key is absent; its \<open>set\<close> answers \<open>false\<close> and stores nothing when the client is not
  connected or the Redis call throws. Neither ever throws. \<open>rejects c op key\<close> says that the
  Redis call of \<open>op\<close> on \<open>key\<close> fails (a client that is not connected fails every call). An
  entry keeps the value and the time to live it was set with. The results are sums because
  the callers guard the calls with \<open>try\<close>/\<open>catch\<close>; this service gives \<open>Inr\<close> always.
\<close>

record cache_entry =
  c_value :: int
  c_ttlSeconds :: int

datatype cache_op = CacheGet | CacheSet

record cache =
  entries :: "string \<rightharpoonup> cache_entry"
  rejects :: "cache_op \<Rightarrow> string \<Rightarrow> bool"

definition cache_get :: "cache \<Rightarrow> string \<Rightarrow> err + int option" where
  "cache_get c key =
     Inr (if rejects c CacheGet key then None else map_option c_value (entries c key))"

definition cache_set :: "cache \<Rightarrow> string \<Rightarrow> int \<Rightarrow> int \<Rightarrow> err + bool \<times> cache" where
  "cache_set c key v ttl =
     Inr (if rejects c CacheSet key then (False, c)
          else (True, c\<lparr>entries := (entries c)(key \<mapsto> \<lparr>c_value = v, c_ttlSeconds = ttl\<rparr>)\<rparr>))"

text \<open>The same store with a backend that answers every call.\<close>

definition healthy :: "cache \<Rightarrow> cache" where
  "healthy c = c\<lparr>rejects := (\<lambda>op key. False)\<rparr>"

record RateLimit =
  maxRequests :: int
  windowMs :: int

text \<open>\<open>SECURITY_CONFIG\<close>, as far as admission and priority use it.\<close>

record SecurityConfig =
  rateLimitPerIp :: RateLimit
  rateLimitPerApiKey :: RateLimit
  maxJobsPerIp :: int
  maxJobsPerApiKey :: int
  premiumKeys :: "string list"

text \<open>The configuration when no environment variable is set.\<close>

definition SECURITY_CONFIG :: SecurityConfig where
  "SECURITY_CONFIG =
     \<lparr>rateLimitPerIp = \<lparr>maxRequests = 10, windowMs = 60000\<rparr>,
      rateLimitPerApiKey = \<lparr>maxRequests = 100, windowMs = 60000\<rparr>,
      maxJobsPerIp = 3, maxJobsPerApiKey = 10, premiumKeys = []\<rparr>"

record SecurityCheckResult =
  allowed :: bool
  reason :: "string option"
  retryAfterSeconds :: "int option"

text \<open>An optional string is truthy when it is present and not empty.\<close>

definition truthy :: "string option \<Rightarrow> bool" where
  "truthy k = (case k of Some s \<Rightarrow> s \<noteq> [] | None \<Rightarrow> False)"

text \<open>\<open>apiKey || clientIp\<close>.\<close>

definition identifierOf :: "string \<Rightarrow> string option \<Rightarrow> string" where
  "identifierOf clientIp apiKey =
     (case apiKey of Some k \<Rightarrow> if k \<noteq> [] then k else clientIp | None \<Rightarrow> clientIp)"

text \<open>\<open>Math.ceil(ms / 1000)\<close>.\<close>

definition ceilSeconds :: "int \<Rightarrow> int" where
  "ceilSeconds ms = - ((- ms) div 1000)"

text \<open>\<open>(await cache.get<number>(cacheKey)) || 0\<close>.\<close>

definition orZero :: "int option \<Rightarrow> int" where
  "orZero v = (case v of Some n \<Rightarrow> n | None \<Rightarrow> 0)"

definition checkRateLimit ::
  "SecurityConfig \<Rightarrow> cache \<Rightarrow> string \<Rightarrow> string option \<Rightarrow> SecurityCheckResult \<times> cache" where
  "checkRateLimit cfg c clientIp apiKey =
     (let identifier = identifierOf clientIp apiKey;
          config = (if truthy apiKey then rateLimitPerApiKey cfg else rateLimitPerIp cfg);
          cacheKey = ''ratelimit:'' @ identifier
      in case cache_get c cacheKey of
           Inl e \<Rightarrow> (\<lparr>allowed = True, reason = None, retryAfterSeconds = None\<rparr>, c)
         | Inr v \<Rightarrow>
             (let currentCount = orZero v
              in if currentCount \<ge> maxRequests config then
                   (let retryAfter = ceilSeconds (windowMs config)
                    in (\<lparr>allowed = False,
                         reason = Some (''Rate limit exceeded. Max ''
                                    @ numberToString (maxRequests config)
                                    @ '' requests per '' @ numberToString retryAfter @ ''s''),
                         retryAfterSeconds = Some retryAfter\<rparr>, c))
                 else
                   (case cache_set c cacheKey (currentCount + 1) (ceilSeconds (windowMs config)) of
                      Inl e \<Rightarrow> (\<lparr>allowed = True, reason = None, retryAfterSeconds = None\<rparr>, c)
                    | Inr (stored, c') \<Rightarrow>
                        (\<lparr>allowed = True, reason = None, retryAfterSeconds = None\<rparr>, c'))))"

definition checkConcurrentJobs ::
  "SecurityConfig \<Rightarrow> cache \<Rightarrow> string \<Rightarrow> string option \<Rightarrow> SecurityCheckResult" where
  "checkConcurrentJobs cfg c clientIp apiKey =
     (let identifier = identifierOf clientIp apiKey;
          maxJobs = (if truthy apiKey then maxJobsPerApiKey cfg else maxJobsPerIp cfg);
          cacheKey = ''concurrent:'' @ identifier
      in case cache_get c cacheKey of
           Inl e \<Rightarrow> \<lparr>allowed = True, reason = None, retryAfterSeconds = None\<rparr>
         | Inr v \<Rightarrow>
             (let currentJobs = orZero v
              in if currentJobs \<ge> maxJobs then
                   \<lparr>allowed = False,
                    reason = Some (''Maximum '' @ numberToString maxJobs
                               @ '' concurrent jobs per ''
                               @ (if truthy apiKey then ''API key'' else ''IP'')
                               @ ''. Please wait for existing jobs to complete.''),
                    retryAfterSeconds = None\<rparr>
                 else \<lparr>allowed = True, reason = None, retryAfterSeconds = None\<rparr>))"

definition canSubmitJob ::
  "SecurityConfig \<Rightarrow> cache \<Rightarrow> string \<Rightarrow> string option \<Rightarrow> SecurityCheckResult \<times> cache" where
  "canSubmitJob cfg c clientIp apiKey =
     (let (rateLimitCheck, c1) = checkRateLimit cfg c clientIp apiKey
      in if \<not> allowed rateLimitCheck then (rateLimitCheck, c1)
         else
           (let concurrencyCheck = checkConcurrentJobs cfg c1 clientIp apiKey
            in if \<not> allowed concurrencyCheck then (concurrencyCheck, c1)
               else (\<lparr>allowed = True, reason = None, retryAfterSeconds = None\<rparr>, c1)))"

definition incrementConcurrentJobs :: "cache \<Rightarrow> string \<Rightarrow> string option \<Rightarrow> cache" where
  "incrementConcurrentJobs c clientIp apiKey =
     (let cacheKey = ''concurrent:'' @ identifierOf clientIp apiKey
      in case cache_get c cacheKey of
           Inl e \<Rightarrow> c
         | Inr v \<Rightarrow>
             (case cache_set c cacheKey (orZero v + 1) 3600 of
                Inl e \<Rightarrow> c
              | Inr (stored, c') \<Rightarrow> c'))"

definition decrementConcurrentJobs :: "cache \<Rightarrow> string \<Rightarrow> string option \<Rightarrow> cache" where
  "decrementConcurrentJobs c clientIp apiKey =
     (let cacheKey = ''concurrent:'' @ identifierOf clientIp apiKey
      in case cache_get c cacheKey of
           Inl e \<Rightarrow> c
         | Inr v \<Rightarrow>
             if orZero v > 0 then
               (case cache_set c cacheKey (orZero v - 1) 3600 of
                  Inl e \<Rightarrow> c
                | Inr (stored, c') \<Rightarrow> c')
             else c)"

definition calculatePriority :: "SecurityConfig \<Rightarrow> string option \<Rightarrow> int option \<Rightarrow> string" where
  "calculatePriority cfg apiKey lim =
     (if (case apiKey of Some k \<Rightarrow> k \<noteq> [] \<and> k \<in> set (premiumKeys cfg) | None \<Rightarrow> False)
      then ''high''
      else if (case lim of Some n \<Rightarrow> n \<noteq> 0 \<and> n \<le> 20 | None \<Rightarrow> False) then ''normal''
      else ''low'')"

section \<open>SearchController.queueSearchJob\<close>

text \<open>
  What the API process and the worker share, and what the API process keeps to itself:
  the counter cache is used by the security service only, the broker's queue holds the
  submitted jobs, the database holds the job status documents.
\<close>

record world =
  w_cache :: cache
  w_queue :: "ScrapeJobData list"
  w_db :: firestore

text \<open>\<open>clientIp || 'unknown'\<close>.\<close>

definition ipOrUnknown :: "string option \<Rightarrow> string" where
  "ipOrUnknown clientIp =
     (case clientIp of Some s \<Rightarrow> if s \<noteq> [] then s else ''unknown'' | None \<Rightarrow> ''unknown'')"

text \<open>
  \<open>queueSearchJob\<close>. \<open>batchId\<close> is the fresh \<open>uuidv4()\<close>; \<open>addJobError\<close> is \<open>Some e\<close> when
  \<open>queueManager.addJob\<close> throws \<open>e\<close>. The \<open>catch\<close> block decrements the counter and throws
  the error again.
\<close>

definition queueSearchJob ::
  "SecurityConfig \<Rightarrow> fault_plan \<Rightarrow> err option \<Rightarrow> int \<Rightarrow> string \<Rightarrow> world
     \<Rightarrow> string \<Rightarrow> int \<Rightarrow> int \<Rightarrow> string option \<Rightarrow> string option
     \<Rightarrow> (err + SearchResult) \<times> world" where
  "queueSearchJob cfg fault addJobError now batchId w q p l clientIp apiKey =
     (let priority = calculatePriority cfg apiKey (Some l);
          c1 = incrementConcurrentJobs (w_cache w) (ipOrUnknown clientIp) apiKey
      in case addJobError of
           Some e \<Rightarrow>
             (Inl e, w\<lparr>w_cache := decrementConcurrentJobs c1 (ipOrUnknown clientIp) apiKey\<rparr>)
         | None \<Rightarrow>
             (let queued = w_queue w @
                    [\<lparr>j_batchId = batchId, j_query = q, j_page = p, j_limit = l,
                      j_clientIp = clientIp, j_apiKey = apiKey, j_priority = Some priority\<rparr>]
              in case updateJobStatus fault now (w_db w) batchId Queued
                        [''query'' \<mapsto> JStr q, ''page'' \<mapsto> JNum p, ''limit'' \<mapsto> JNum l,
                         ''priority'' \<mapsto> JStr priority, ''createdAt'' \<mapsto> JNum now] of
                   Inl e \<Rightarrow>
                     (Inl e,
                      w\<lparr>w_cache := decrementConcurrentJobs c1 (ipOrUnknown clientIp) apiKey,
                        w_queue := queued\<rparr>)
                 | Inr db' \<Rightarrow>
                     (Inr \<lparr>r_success = True, r_source = ''queued'', r_cached = False,
                           r_query = q, r_page = p, r_limit = l, r_returned = 0,
                           r_vehicles = None, r_batchId = Some batchId,
                           r_status = Some ''queued'', r_scrapeDurationSeconds = None\<rparr>,
                      \<lparr>w_cache = c1, w_queue = queued, w_db = db'\<rparr>)))"

section \<open>The worker next to the API process\<close>

text \<open>
  The worker is a process of its own: \<open>worker.ts\<close> imports the queue manager, the platform
  factory and the batch repository, and makes no call to the security service. Seen in the
  whole system, an attempt of \<open>processScrapeJob\<close> changes the database and leaves the
  counter cache as it is.
\<close>

definition workerProcess ::
  "fault_plan \<Rightarrow> int \<Rightarrow> int \<Rightarrow> string \<Rightarrow> world \<Rightarrow> ScrapeJobData \<Rightarrow> int
     \<Rightarrow> (err + BatchVehicle list) \<Rightarrow> int \<Rightarrow> err option \<times> world" where
  "workerProcess fault now dstShift workerId w job attemptsMade scrape duration =
     (let (thrown, db') =
            processScrapeJob fault now dstShift workerId (w_db w) job attemptsMade scrape duration
      in (thrown, w\<lparr>w_db := db'\<rparr>))"

section \<open>Properties of the lock service\<close>

text \<open>The lock key of a query is case- and whitespace-normalised.\<close>

lemma getLockKey_example:
  "getLockKey ''  Honda Civic '' 2 50 = ''honda civic:page:2:limit:50''"
  by (simp add: getLockKey_def trim_def toLowerCase_def isWhitespace_def numberToString_def
        decimal.simps digit_char_def)

text \<open>
  C1. The lock table is a map from lock keys, so a key never has two entries at once. While
  the entry of a key is live (not older than the timeout), \<open>acquireLock\<close> returns \<open>null\<close> and
  leaves the table as it is. It returns a token exactly when the key has no entry (never
  locked, or released) or the entry has expired; the new lock then replaces whatever was
  there, and every further \<open>acquireLock\<close> for the key made within the timeout of the new
  lock's start returns \<open>null\<close>.
\<close>

theorem acquireLock_mutual_exclusion:
  fixes locks :: lock_map
  shows "(\<forall>held. locks (getLockKey q p l) = Some held \<and> live tCheck held \<longrightarrow>
            acquireLock locks tCheck tId tStart rnd q p l = (None, locks))
       \<and> (fst (acquireLock locks tCheck tId tStart rnd q p l) \<noteq> None \<longleftrightarrow>
            (locks (getLockKey q p l) = None
             \<or> (\<exists>held. locks (getLockKey q p l) = Some held \<and> \<not> live tCheck held)))
       \<and> (\<forall>tok. fst (acquireLock locks tCheck tId tStart rnd q p l) = Some tok \<longrightarrow>
            snd (acquireLock locks tCheck tId tStart rnd q p l) =
              locks(getLockKey q p l \<mapsto>
                \<lparr>query = q, page = p, limit = l, startTime = tStart, lockId = tok\<rparr>)
            \<and> (\<forall>tCheck' tId' tStart' rnd'. tCheck' - tStart \<le> LOCK_TIMEOUT_MS \<longrightarrow>
                  acquireLock (snd (acquireLock locks tCheck tId tStart rnd q p l))
                      tCheck' tId' tStart' rnd' q p l =
                    (None, snd (acquireLock locks tCheck tId tStart rnd q p l))))"
  by (auto simp: acquireLock_def live_def Let_def split: option.splits)

theorem acquireLock_mutual_exclusion_witness:
  "(let held = \<lparr>query = ''honda'', page = 1, limit = 10, startTime = 0, lockId = ''0-abc''\<rparr>;
        locks = [getLockKey ''honda'' 1 10 \<mapsto> held]
    in locks (getLockKey ''honda'' 1 10) = Some held \<and> live 900000 held
       \<and> acquireLock locks 900000 900000 900000 ''xyz'' ''honda'' 1 10 = (None, locks)
       \<and> \<not> live 900001 held
       \<and> fst (acquireLock locks 900001 900001 900002 ''xyz'' ''honda'' 1 10) = Some ''900001-xyz''
       \<and> fst (acquireLock (snd (acquireLock locks 900001 900001 900002 ''xyz'' ''honda'' 1 10))
                 1800002 1800002 1800002 ''uvw'' ''honda'' 1 10) = None)"
  using acquireLock_mutual_exclusion
    [of "[getLockKey ''honda'' 1 10 \<mapsto>
           \<lparr>query = ''honda'', page = 1, limit = 10, startTime = 0, lockId = ''0-abc''\<rparr>]"
        "''honda''" 1 10 900000 900000 900000 "''xyz''"]
  by (simp add: live_def LOCK_TIMEOUT_MS_def acquireLock_def Let_def numberToString_def
        decimal.simps digit_char_def)

text \<open>
  C2. When a key has a lock, \<open>releaseLock\<close> with a token other than the holder's lock id
  returns \<open>false\<close> and leaves the lock map unchanged; with the holder's lock id it returns
  \<open>true\<close> and removes the lock of that key, and nothing else.
\<close>

theorem releaseLock_token_check:
  assumes "locks (getLockKey q p l) = Some holder"
  shows "releaseLock locks q p l tok =
           (if tok = lockId holder then (True, locks(getLockKey q p l := None))
            else (False, locks))"
  using assms by (auto simp: releaseLock_def Let_def)

theorem releaseLock_token_check_witness:
  "(let holder = \<lparr>query = ''honda'', page = 1, limit = 10, startTime = 0, lockId = ''0-abc''\<rparr>;
        locks = [getLockKey ''honda'' 1 10 \<mapsto> holder]
    in locks (getLockKey ''honda'' 1 10) = Some holder
       \<and> releaseLock locks ''honda'' 1 10 ''0-zzz'' = (False, locks)
       \<and> releaseLock locks ''honda'' 1 10 ''0-abc'' = (True, Map.empty))"
  using releaseLock_token_check
    [of "[getLockKey ''honda'' 1 10 \<mapsto>
           \<lparr>query = ''honda'', page = 1, limit = 10, startTime = 0, lockId = ''0-abc''\<rparr>]"
        "''honda''" 1 10
        "\<lparr>query = ''honda'', page = 1, limit = 10, startTime = 0, lockId = ''0-abc''\<rparr>"]
  by (simp add: Let_def)

text \<open>
  C8. A lock whose age exceeds \<open>LOCK_TIMEOUT_MS\<close> (15 minutes) and that was never released
  is reported as absent by \<open>isLocked\<close>, which also deletes it from the lock map.
\<close>

theorem isLocked_expired_lock:
  assumes "locks (getLockKey q p l) = Some held"
      and "now - startTime held > LOCK_TIMEOUT_MS"
  shows "isLocked locks now q p l = (False, locks(getLockKey q p l := None))"
  using assms by (simp add: isLocked_def Let_def)

theorem isLocked_expired_lock_witness:
  "(let held = \<lparr>query = ''honda'', page = 1, limit = 10, startTime = 0, lockId = ''0-abc''\<rparr>;
        locks = [getLockKey ''honda'' 1 10 \<mapsto> held]
    in locks (getLockKey ''honda'' 1 10) = Some held
       \<and> 900001 - startTime held > LOCK_TIMEOUT_MS
       \<and> LOCK_TIMEOUT_MS = 900000
       \<and> isLocked locks 900001 ''honda'' 1 10 = (False, Map.empty)
       \<and> isLocked locks 900000 ''honda'' 1 10 = (True, locks))"
  using isLocked_expired_lock
    [of "[getLockKey ''honda'' 1 10 \<mapsto>
           \<lparr>query = ''honda'', page = 1, limit = 10, startTime = 0, lockId = ''0-abc''\<rparr>]"
        "''honda''" 1 10
        "\<lparr>query = ''honda'', page = 1, limit = 10, startTime = 0, lockId = ''0-abc''\<rparr>"
        900001]
  by (simp add: Let_def LOCK_TIMEOUT_MS_def isLocked_def)

section \<open>Properties of the synchronous path\<close>





section \<open>Properties of the retry orchestrator\<close>

lemma invocations_nonneg: "0 \<le> invocations tr"
  by (induction tr rule: invocations.induct) auto

lemma snd_retryLoop_unfold:
  "snd (retryLoop opts fn duration attempt lastError) =
     (if attempt \<le> maxAttempts opts then
        (case fn attempt of
           Inr d \<Rightarrow> [Called attempt]
         | Inl e \<Rightarrow>
             if attempt < maxAttempts opts then
               (case onRetry opts of
                  Some hook \<Rightarrow>
                    (case hook attempt e of
                       HookThrows x \<Rightarrow> [Called attempt, Hooked attempt]
                     | HookDone \<Rightarrow>
                         Called attempt # Hooked attempt # Slept (calculateDelay attempt opts)
                           # snd (retryLoop opts fn duration (attempt + 1) (Some e)))
                | None \<Rightarrow>
                    Called attempt # Slept (calculateDelay attempt opts)
                      # snd (retryLoop opts fn duration (attempt + 1) (Some e)))
             else Called attempt # snd (retryLoop opts fn duration (attempt + 1) (Some e)))
      else [])"
  by (subst retryLoop.simps)
     (simp add: Let_def split_beta split: sum.splits option.splits hook_result.splits)

lemma retryLoop_invocations_pos:
  "attempt \<le> maxAttempts opts \<Longrightarrow>
     1 \<le> invocations (snd (retryLoop opts fn duration attempt lastError))"
  by (subst snd_retryLoop_unfold)
     (simp add: invocations_nonneg split: sum.splits option.splits hook_result.splits)

text \<open>
  The delays of a run that starts at \<open>attempt\<close>: one after each invocation but the last,
  each computed by \<open>calculateDelay\<close> from the number of the attempt that failed.
\<close>

lemma retryLoop_delays:
  "delays (snd (retryLoop opts fn duration attempt lastError)) =
     map (\<lambda>n. calculateDelay n opts)
       [attempt .. attempt + invocations (snd (retryLoop opts fn duration attempt lastError)) - 2]"
proof (induction opts fn duration attempt lastError rule: retryLoop.induct)
  case (1 opts fn duration attempt lastError)
  let ?next = "\<lambda>e. snd (retryLoop opts fn duration (attempt + 1) (Some e))"
  have step: "[attempt .. attempt + (1 + invocations (?next e)) - 2] =
                attempt # [attempt + 1 .. attempt + 1 + invocations (?next e) - 2]"
    if "attempt < maxAttempts opts" for e
  proof -
    have "1 \<le> invocations (?next e)"
      using that by (intro retryLoop_invocations_pos) simp
    then show ?thesis by (subst upto_rec1) (simp_all add: algebra_simps)
  qed
  have last: "invocations (?next e) = 0" if "\<not> attempt < maxAttempts opts" for e
    using that by (subst snd_retryLoop_unfold) simp
  show ?case
    apply (subst (1 2) snd_retryLoop_unfold)
    using 1 step last
    apply (auto split: sum.splits option.splits hook_result.splits)
    done
qed

lemma backoff_sequence:
  "min (1000 * 2 ^ i) (10000::int) = (if i < 4 then [1000, 2000, 4000, 8000] ! i else 10000)"
proof (cases "i < 4")
  case True
  then have "i = 0 \<or> i = 1 \<or> i = 2 \<or> i = 3" by arith
  then show ?thesis by auto
next
  case False
  then have "(2::int) ^ 4 \<le> 2 ^ i" by (intro power_increasing) simp_all
  with False show ?thesis by simp
qed

text \<open>
  C6. In every run of \<open>executeWithRetry\<close> the delays slept are, in order, those of the
  attempts \<open>n = 1, 2, ...\<close> that were followed by a retry, and the delay after attempt \<open>n\<close>
  is \<open>min (initialDelay * backoffMultiplier ^ (n - 1)) maxDelay\<close>, computed from the
  \<open>initialDelay\<close>, \<open>backoffMultiplier\<close> and \<open>maxDelay\<close> the caller passed (and from the
  defaults 1000, 2 and 10000 for the ones left out). With \<open>initialDelay = 1000\<close>,
  \<open>backoffMultiplier = 2\<close> and \<open>maxDelay = 10000\<close> the delays are 1000, 2000, 4000, 8000
  and then 10000 for every later retry. (Numbers are integers here; the source computes
  in floating point, which is exact on these values.)
\<close>

theorem executeWithRetry_backoff_delays:
  "(\<forall>i m d. p_initialDelay options = Some i \<and> p_backoffMultiplier options = Some m
        \<and> p_maxDelay options = Some d \<longrightarrow>
      delays (snd (executeWithRetry fn options duration)) =
        map (\<lambda>n. min (i * m ^ nat (n - 1)) d)
          [1 .. invocations (snd (executeWithRetry fn options duration)) - 1])
   \<and> delays (snd (executeWithRetry fn options duration)) =
       map (\<lambda>n. min ((case p_initialDelay options of Some i \<Rightarrow> i | None \<Rightarrow> 1000)
                      * (case p_backoffMultiplier options of Some m \<Rightarrow> m | None \<Rightarrow> 2)
                          ^ nat (n - 1))
                    (case p_maxDelay options of Some d \<Rightarrow> d | None \<Rightarrow> 10000))
         [1 .. invocations (snd (executeWithRetry fn options duration)) - 1]
   \<and> (p_initialDelay options = Some 1000 \<and> p_backoffMultiplier options = Some 2
        \<and> p_maxDelay options = Some 10000 \<longrightarrow>
      (\<forall>i < length (delays (snd (executeWithRetry fn options duration))).
         delays (snd (executeWithRetry fn options duration)) ! i =
           (if i < 4 then [1000, 2000, 4000, 8000] ! i else 10000)))"
proof -
  let ?opts = "mergeOptions defaultOptions options"
  let ?run = "snd (executeWithRetry fn options duration)"
  have merged: "delays ?run =
     map (\<lambda>n. min (initialDelay ?opts * backoffMultiplier ?opts ^ nat (n - 1)) (maxDelay ?opts))
       [1 .. invocations ?run - 1]"
    using retryLoop_delays [of ?opts fn duration 1 None]
    by (simp add: executeWithRetry_def calculateDelay_def Let_def)
  have given: "delays ?run =
       map (\<lambda>n. min ((case p_initialDelay options of Some i \<Rightarrow> i | None \<Rightarrow> 1000)
                      * (case p_backoffMultiplier options of Some m \<Rightarrow> m | None \<Rightarrow> 2)
                          ^ nat (n - 1))
                    (case p_maxDelay options of Some d \<Rightarrow> d | None \<Rightarrow> 10000))
         [1 .. invocations ?run - 1]"
    by (subst merged) (simp add: mergeOptions_def defaultOptions_def split: option.splits)
  have passed: "delays ?run = map (\<lambda>n. min (i * m ^ nat (n - 1)) d) [1 .. invocations ?run - 1]"
    if "p_initialDelay options = Some i" "p_backoffMultiplier options = Some m"
       "p_maxDelay options = Some d" for i m d
    using that by (subst given) simp
  have special: "delays ?run ! i = (if i < 4 then [1000, 2000, 4000, 8000] ! i else 10000)"
    if opts: "p_initialDelay options = Some 1000" "p_backoffMultiplier options = Some 2"
             "p_maxDelay options = Some 10000"
      and i: "i < length (delays ?run)" for i
  proof -
    have len: "i < length [1 .. invocations ?run - 1]"
      using i by (subst (asm) given) simp
    then have nth: "[1 .. invocations ?run - 1] ! i = 1 + int i"
      by (simp add: nth_upto)
    have "delays ?run ! i = min (1000 * 2 ^ i) 10000"
      using len nth opts by (subst given) simp
    then show ?thesis by (simp only: backoff_sequence)
  qed
  from passed given special show ?thesis by blast
qed

text \<open>
  Two runs of an operation that always fails: with the options of the repository's caller
  (\<open>copart.platform.ts\<close>: three attempts, \<open>initialDelay = 2000\<close>) the delays are 2000 and
  4000; with seven attempts and \<open>initialDelay = 1000\<close> they are the sequence of the claim.
\<close>

theorem executeWithRetry_backoff_delays_witness:
  "(let options = \<lparr>p_maxAttempts = Some 7, p_initialDelay = Some 1000, p_maxDelay = Some 10000,
                    p_backoffMultiplier = Some 2, p_onRetry = None\<rparr>;
        caller = \<lparr>p_maxAttempts = Some 3, p_initialDelay = Some 2000, p_maxDelay = Some 10000,
                   p_backoffMultiplier = Some 2, p_onRetry = None\<rparr>;
        fn = (\<lambda>k. Inl ''blocked'' :: err + unit)
    in p_initialDelay options = Some 1000 \<and> p_backoffMultiplier options = Some 2
       \<and> p_maxDelay options = Some 10000
       \<and> invocations (snd (executeWithRetry fn options 0)) = 7
       \<and> delays (snd (executeWithRetry fn options 0)) = [1000, 2000, 4000, 8000, 10000, 10000]
       \<and> invocations (snd (executeWithRetry fn caller 0)) = 3
       \<and> delays (snd (executeWithRetry fn caller 0)) = [2000, 4000])"
  using executeWithRetry_backoff_delays
    [of "\<lparr>p_maxAttempts = Some 7, p_initialDelay = Some 1000, p_maxDelay = Some 10000,
          p_backoffMultiplier = Some 2, p_onRetry = None\<rparr>"
        "\<lambda>k. Inl ''blocked'' :: err + unit" 0]
  by (simp add: executeWithRetry_def mergeOptions_def defaultOptions_def
        snd_retryLoop_unfold calculateDelay_def Let_def)






section \<open>Properties of the page cache in Firestore\<close>

lemma pages_updateSearchMetadata [simp]:
  "pages (updateSearchMetadata fault now db q p l n) = pages db"
  by (simp add: updateSearchMetadata_def Let_def split: option.splits)

lemma jobs_updateSearchMetadata [simp]:
  "jobs (updateSearchMetadata fault now db q p l n) = jobs db"
  by (simp add: updateSearchMetadata_def Let_def split: option.splits)

lemma jobs_savePage [simp]:
  "jobs (snd (savePage fault now dstShift db q p l vs d)) = jobs db"
  by (simp add: savePage_def Let_def)

lemma length_withPageIndex [simp]: "length (withPageIndex vs) = length vs"
  by (simp add: withPageIndex_def)

lemma nth_withPageIndex:
  "i < length vs \<Longrightarrow> withPageIndex vs ! i = (vs ! i)(''pageIndex'' \<mapsto> JNum (int i))"
  by (simp add: withPageIndex_def nth_enumerate_eq)

text \<open>
  C9 (as stated, refuted). The claim says that the records looked up are identical to the
  records stored. \<open>savePage\<close> writes every record with a \<open>pageIndex\<close> field added: one record
  without that field is stored, and the lookup returns it with \<open>pageIndex = 0\<close>, which is
  not the record that was handed in.
\<close>

theorem savePage_getPage_not_identical:
  "(let vs = [[''lot_number'' \<mapsto> JStr ''12345'']];
        db0 = \<lparr>pages = Map.empty, searches = Map.empty, jobs = Map.empty\<rparr>;
        stored = snd (savePage (\<lambda>c. False) 0 0 db0 ''honda'' 1 10 vs 5)
    in vs \<noteq> []
       \<and> fst (getPage (\<lambda>c. False) 1 stored ''honda'' 1 10)
           = Some [[''lot_number'' \<mapsto> JStr ''12345'', ''pageIndex'' \<mapsto> JNum 0]]
       \<and> fst (getPage (\<lambda>c. False) 1 stored ''honda'' 1 10) \<noteq> Some vs)"
proof -
  have "[''lot_number'' \<mapsto> JStr ''12345'', ''pageIndex'' \<mapsto> JNum 0] ''pageIndex''
          \<noteq> [''lot_number'' \<mapsto> JStr ''12345''] ''pageIndex''"
    by simp
  then have "[''lot_number'' \<mapsto> JStr ''12345'', ''pageIndex'' \<mapsto> JNum 0]
               \<noteq> [''lot_number'' \<mapsto> JStr ''12345'']"
    by metis
  then show ?thesis
    by (simp add: savePage_def getPage_def Let_def withPageIndex_def SEVEN_DAYS_MS_def
          sevenDaysLater_def enumerate_eq_zip)
qed

text \<open>
  C9 (amended). The page expires at the instant \<open>savePage\<close> computed: seven calendar days
  of the local time zone after the store, which is \<open>7 * 24\<close> hours less the clock change
  of that week. When the write of \<open>savePage\<close> and the read of \<open>getPage\<close> do not fail and the
  lookup happens no later than that instant, \<open>savePage\<close> returns \<open>true\<close> and \<open>getPage\<close> for
  the same query, page and limit returns as many records as were stored, in the same order,
  each equal to the stored record with the field \<open>pageIndex\<close> set to its position in the
  page (0-based); all other fields are as stored. A lookup after that instant returns
  \<open>null\<close>.
\<close>

theorem savePage_getPage_roundtrip:
  assumes "\<not> fault PageSet" and "\<not> fault' PageGet"
  shows "fst (savePage fault now dstShift db q p l vs d)
       \<and> (now' \<le> sevenDaysLater dstShift now \<longrightarrow>
            fst (getPage fault' now' (snd (savePage fault now dstShift db q p l vs d)) q p l)
              = Some (withPageIndex vs))
       \<and> (sevenDaysLater dstShift now < now' \<longrightarrow>
            fst (getPage fault' now' (snd (savePage fault now dstShift db q p l vs d)) q p l)
              = None)
       \<and> length (withPageIndex vs) = length vs
       \<and> (\<forall>i < length vs.
            withPageIndex vs ! i = (vs ! i)(''pageIndex'' \<mapsto> JNum (int i)))"
  using assms by (simp add: savePage_def getPage_def Let_def nth_withPageIndex)

text \<open>
  A page stored in a week with a spring-forward change (\<open>dstShift\<close> of one hour) is found
  until seven days less one hour after the store, and no longer one millisecond later.
\<close>

theorem savePage_getPage_roundtrip_witness:
  "(let vs = [[''lot_number'' \<mapsto> JStr ''12345''], [''lot_number'' \<mapsto> JStr ''67890'']];
        db0 = \<lparr>pages = Map.empty, searches = Map.empty, jobs = Map.empty\<rparr>;
        nofault = (\<lambda>c. False);
        stored = snd (savePage nofault 0 3600000 db0 '' Honda '' 1 10 vs 5)
    in \<not> nofault PageSet \<and> \<not> nofault PageGet
       \<and> sevenDaysLater 3600000 0 = 601200000
       \<and> fst (savePage nofault 0 3600000 db0 '' Honda '' 1 10 vs 5)
       \<and> fst (getPage nofault 601200000 stored '' Honda '' 1 10)
           = Some [[''lot_number'' \<mapsto> JStr ''12345'', ''pageIndex'' \<mapsto> JNum 0],
                   [''lot_number'' \<mapsto> JStr ''67890'', ''pageIndex'' \<mapsto> JNum 1]]
       \<and> fst (getPage nofault 601200001 stored '' Honda '' 1 10) = None)"
  using savePage_getPage_roundtrip
    [of "\<lambda>c. False" "\<lambda>c. False" 0 3600000
        "\<lparr>pages = Map.empty, searches = Map.empty, jobs = Map.empty\<rparr>" "'' Honda ''" 1 10
        "[[''lot_number'' \<mapsto> JStr ''12345''], [''lot_number'' \<mapsto> JStr ''67890'']]" 5
        601200000]
  by (simp add: Let_def SEVEN_DAYS_MS_def sevenDaysLater_def withPageIndex_def enumerate_eq_zip
        savePage_def getPage_def)

section \<open>Properties of the job status\<close>

lemma jobStatus_worker_update:
  "\<not> fault JobSet \<Longrightarrow> meta ''status'' = None \<Longrightarrow>
     jobStatus (worker_updateJobStatus fault now db b s meta) b = Some (JStr (statusName s))"
  by (simp add: worker_updateJobStatus_def updateJobStatus_def jobStatus_def Let_def map_add_def)

lemma jobStatus_worker_update_other:
  "b' \<noteq> b \<Longrightarrow> jobStatus (worker_updateJobStatus fault now db b s meta) b' = jobStatus db b'"
  by (simp add: worker_updateJobStatus_def updateJobStatus_def jobStatus_def Let_def)

lemma jobStatus_savePage [simp]:
  "jobStatus (snd (savePage fault now dstShift db q p l vs d)) b = jobStatus db b"
  by (simp add: jobStatus_def)

lemma jobStatus_processScrapeJob_own:
  "\<not> fault JobSet \<Longrightarrow> j_batchId job = b \<Longrightarrow>
     jobStatus (snd (processScrapeJob fault now dstShift wid db job attemptsMade scrape d)) b
       = Some (JStr (case scrape of Inl e \<Rightarrow> ''failed'' | Inr vs \<Rightarrow> ''completed''))"
  by (auto simp: processScrapeJob_def processScrapeJob_scraping_def Let_def
        jobStatus_worker_update split: sum.splits)

lemma jobStatus_processScrapeJob_other:
  "j_batchId job \<noteq> b \<Longrightarrow>
     jobStatus (snd (processScrapeJob fault now dstShift wid db job attemptsMade scrape d)) b
       = jobStatus db b"
  by (auto simp: processScrapeJob_def processScrapeJob_scraping_def Let_def
        jobStatus_worker_update_other [OF not_sym] split: sum.splits)

text \<open>
  C5 (as stated, refuted). The claim says that a terminal status is never changed and that
  a job is marked failed only when the broker's retries are used up. The first of three
  attempts fails (\<open>attemptsMade = 0\<close>) and the job document reads \<open>failed\<close> with
  \<open>attempt = 1\<close>; the broker's second attempt begins by writing \<open>processing\<close> over it and,
  succeeding, ends with \<open>completed\<close>.
\<close>

theorem failed_job_is_processed_again:
  "(let job = \<lparr>j_batchId = ''b1'', j_query = ''honda'', j_page = 1, j_limit = 10,
               j_clientIp = Some ''10.0.0.1'', j_apiKey = None, j_priority = Some ''normal''\<rparr>;
        db0 = \<lparr>pages = Map.empty, searches = Map.empty, jobs = Map.empty\<rparr>;
        db1 = snd (processScrapeJob (\<lambda>c. False) 100 0 ''worker-1'' db0 job 0
                     (Inl ''Navigation timeout'') 0);
        db2 = processScrapeJob_scraping (\<lambda>c. False) 200 ''worker-1'' db1 job;
        db3 = snd (processScrapeJob (\<lambda>c. False) 200 0 ''worker-1'' db1 job 1
                     (Inr [[''lot_number'' \<mapsto> JStr ''12345'']]) 3)
    in jobStatus db1 ''b1'' = Some (JStr ''failed'') \<and> isTerminal (jobStatus db1 ''b1'')
       \<and> (case jobs db1 ''b1'' of Some doc \<Rightarrow> doc ''attempt'' | None \<Rightarrow> None) = Some (JNum 1)
       \<and> jobStatus db2 ''b1'' = Some (JStr ''processing'')
       \<and> jobStatus db3 ''b1'' = Some (JStr ''completed''))"
  by (simp add: processScrapeJob_def processScrapeJob_scraping_def worker_updateJobStatus_def
        updateJobStatus_def jobStatus_def isTerminal_def savePage_def updateSearchMetadata_def
        Let_def map_add_def)

text \<open>
  C5 (amended). A status update writes its status over whatever status the job document
  had. When the status writes succeed, every attempt of \<open>processScrapeJob\<close>, the first as
  well as a retry and whatever the job's status before, first marks the job \<open>processing\<close>
  with the worker's id and the start time: that is the job's status while the scrape runs.
  When the scrape throws, the attempt then marks the job \<open>failed\<close> with the error and
  \<open>attempt = attemptsMade + 1\<close> and throws the error again for the broker; this is what
  the document reads after the attempt. When the scrape returns, the attempt marks the job
  \<open>completed\<close> with the number of vehicles found and returns. In both cases the worker's id
  written with \<open>processing\<close> stays in the document.
\<close>

theorem job_status_follows_last_attempt:
  assumes "\<not> fault JobSet"
  shows "(meta ''status'' = None \<longrightarrow>
            (\<exists>db'. updateJobStatus fault now db b s meta = Inr db'
               \<and> jobStatus db' b = Some (JStr (statusName s))))
       \<and> jobStatus (processScrapeJob_scraping fault now wid db job) (j_batchId job)
           = Some (JStr ''processing'')
       \<and> processScrapeJob fault now dstShift wid db job attemptsMade (Inl e) d
           = (Some e,
              worker_updateJobStatus fault now (processScrapeJob_scraping fault now wid db job)
                (j_batchId job) Failed
                [''error'' \<mapsto> JStr e, ''failedAt'' \<mapsto> JNum now,
                 ''attempt'' \<mapsto> JNum (attemptsMade + 1)])
       \<and> (\<exists>doc. jobs (snd (processScrapeJob fault now dstShift wid db job attemptsMade (Inl e) d))
                   (j_batchId job) = Some doc
              \<and> doc ''status'' = Some (JStr ''failed'')
              \<and> doc ''error'' = Some (JStr e)
              \<and> doc ''attempt'' = Some (JNum (attemptsMade + 1))
              \<and> doc ''workerId'' = Some (JStr wid)
              \<and> doc ''startedAt'' = Some (JNum now))
       \<and> fst (processScrapeJob fault now dstShift wid db job attemptsMade (Inr vs) d) = None
       \<and> (\<exists>doc. jobs (snd (processScrapeJob fault now dstShift wid db job attemptsMade (Inr vs) d))
                   (j_batchId job) = Some doc
              \<and> doc ''status'' = Some (JStr ''completed'')
              \<and> doc ''vehiclesFound'' = Some (JNum (int (length vs)))
              \<and> doc ''workerId'' = Some (JStr wid)
              \<and> doc ''startedAt'' = Some (JNum now))"
proof -
  have upd: "\<exists>db'. updateJobStatus fault now db b s meta = Inr db'
               \<and> jobStatus db' b = Some (JStr (statusName s))" if "meta ''status'' = None"
    using assms that by (simp add: updateJobStatus_def jobStatus_def Let_def map_add_def)
  have during: "jobStatus (processScrapeJob_scraping fault now wid db job) (j_batchId job)
           = Some (JStr ''processing'')"
    using assms by (simp add: processScrapeJob_scraping_def jobStatus_worker_update)
  have failed: "processScrapeJob fault now dstShift wid db job attemptsMade (Inl e) d
           = (Some e,
              worker_updateJobStatus fault now (processScrapeJob_scraping fault now wid db job)
                (j_batchId job) Failed
                [''error'' \<mapsto> JStr e, ''failedAt'' \<mapsto> JNum now,
                 ''attempt'' \<mapsto> JNum (attemptsMade + 1)])"
    by (simp add: processScrapeJob_def Let_def)
  have failed_doc: "\<exists>doc. jobs (snd (processScrapeJob fault now dstShift wid db job attemptsMade
                                       (Inl e) d)) (j_batchId job) = Some doc
              \<and> doc ''status'' = Some (JStr ''failed'')
              \<and> doc ''error'' = Some (JStr e)
              \<and> doc ''attempt'' = Some (JNum (attemptsMade + 1))
              \<and> doc ''workerId'' = Some (JStr wid)
              \<and> doc ''startedAt'' = Some (JNum now)"
    using assms
    by (simp add: processScrapeJob_def processScrapeJob_scraping_def worker_updateJobStatus_def
          updateJobStatus_def Let_def map_add_def)
  have returned: "fst (processScrapeJob fault now dstShift wid db job attemptsMade (Inr vs) d) = None"
    by (simp add: processScrapeJob_def Let_def)
  have returned_doc: "\<exists>doc. jobs (snd (processScrapeJob fault now dstShift wid db job attemptsMade
                                     (Inr vs) d)) (j_batchId job) = Some doc
              \<and> doc ''status'' = Some (JStr ''completed'')
              \<and> doc ''vehiclesFound'' = Some (JNum (int (length vs)))
              \<and> doc ''workerId'' = Some (JStr wid)
              \<and> doc ''startedAt'' = Some (JNum now)"
    using assms
    by (simp add: processScrapeJob_def processScrapeJob_scraping_def worker_updateJobStatus_def
          updateJobStatus_def Let_def map_add_def)
  from upd during failed failed_doc returned returned_doc show ?thesis by blast
qed

theorem job_status_follows_last_attempt_witness:
  "(let job = \<lparr>j_batchId = ''b1'', j_query = ''honda'', j_page = 1, j_limit = 10,
               j_clientIp = Some ''10.0.0.1'', j_apiKey = None, j_priority = Some ''normal''\<rparr>;
        finished = \<lparr>pages = Map.empty, searches = Map.empty,
                    jobs = [''b1'' \<mapsto> [''status'' \<mapsto> JStr ''completed'']]\<rparr>;
        nofault = (\<lambda>c. False);
        after = snd (processScrapeJob nofault 7 0 ''worker-1'' finished job 1
                       (Inl ''Navigation timeout'') 0)
    in \<not> nofault JobSet
       \<and> isTerminal (jobStatus finished ''b1'')
       \<and> jobStatus (processScrapeJob_scraping nofault 7 ''worker-1'' finished job) ''b1''
           = Some (JStr ''processing'')
       \<and> jobStatus after ''b1'' = Some (JStr ''failed'')
       \<and> (case jobs after ''b1'' of Some doc \<Rightarrow> doc ''attempt'' | None \<Rightarrow> None) = Some (JNum 2)
       \<and> (case jobs after ''b1'' of Some doc \<Rightarrow> doc ''workerId'' | None \<Rightarrow> None)
           = Some (JStr ''worker-1'')
       \<and> fst (processScrapeJob nofault 7 0 ''worker-1'' finished job 1
                (Inl ''Navigation timeout'') 0) = Some ''Navigation timeout'')"
  using job_status_follows_last_attempt
    [of "\<lambda>c. False" "Map.empty" 7
        "\<lparr>pages = Map.empty, searches = Map.empty,
          jobs = [''b1'' \<mapsto> [''status'' \<mapsto> JStr ''completed'']]\<rparr>"
        "''b1''" Failed "''worker-1''"
        "\<lparr>j_batchId = ''b1'', j_query = ''honda'', j_page = 1, j_limit = 10,
          j_clientIp = Some ''10.0.0.1'', j_apiKey = None, j_priority = Some ''normal''\<rparr>"
        0 1 "''Navigation timeout''" 0 "[]"]
  by (simp add: Let_def isTerminal_def jobStatus_def processScrapeJob_def
        processScrapeJob_scraping_def worker_updateJobStatus_def updateJobStatus_def map_add_def)

section \<open>Properties of admission\<close>

lemma checkConcurrentJobs_after_rate_limit:
  "checkConcurrentJobs cfg (snd (checkRateLimit cfg c ip k)) ip k = checkConcurrentJobs cfg c ip k"
  by (simp add: checkConcurrentJobs_def checkRateLimit_def cache_get_def cache_set_def Let_def)

lemma allowed_canSubmitJob:
  "allowed (fst (canSubmitJob cfg c ip k)) \<longleftrightarrow>
     allowed (fst (checkRateLimit cfg c ip k)) \<and> allowed (checkConcurrentJobs cfg c ip k)"
  using checkConcurrentJobs_after_rate_limit [of cfg c ip k]
  by (auto simp: canSubmitJob_def Let_def split_beta)

text \<open>
  What each check answers: a counter that cannot be read counts as 0, and whether the
  write of the rate-limit counter succeeds does not matter for the answer.
\<close>

lemma allowed_checkRateLimit:
  "allowed (fst (checkRateLimit cfg c ip k)) \<longleftrightarrow>
     (if rejects c CacheGet (''ratelimit:'' @ identifierOf ip k) then 0
      else orZero (map_option c_value (entries c (''ratelimit:'' @ identifierOf ip k))))
       < maxRequests (if truthy k then rateLimitPerApiKey cfg else rateLimitPerIp cfg)"
  by (auto simp: checkRateLimit_def cache_get_def cache_set_def Let_def orZero_def)

lemma allowed_checkConcurrentJobs:
  "allowed (checkConcurrentJobs cfg c ip k) \<longleftrightarrow>
     (if rejects c CacheGet (''concurrent:'' @ identifierOf ip k) then 0
      else orZero (map_option c_value (entries c (''concurrent:'' @ identifierOf ip k))))
       < (if truthy k then maxJobsPerApiKey cfg else maxJobsPerIp cfg)"
  by (auto simp: checkConcurrentJobs_def cache_get_def Let_def orZero_def)

text \<open>
  The service writes no negative counter: a count is written as one more than the count
  read, or as one less than a positive count read.
\<close>

lemma counters_stay_nonneg:
  assumes "\<forall>key e. entries c key = Some e \<longrightarrow> 0 \<le> c_value e"
  shows "(\<forall>key e. entries (snd (checkRateLimit cfg c ip k)) key = Some e \<longrightarrow> 0 \<le> c_value e)
       \<and> (\<forall>key e. entries (incrementConcurrentJobs c ip k) key = Some e \<longrightarrow> 0 \<le> c_value e)
       \<and> (\<forall>key e. entries (decrementConcurrentJobs c ip k) key = Some e \<longrightarrow> 0 \<le> c_value e)"
proof -
  have nn: "0 \<le> orZero (map_option c_value (entries c key))" for key
    using assms by (cases "entries c key") (auto simp: orZero_def)
  show ?thesis
    using assms nn
    by (auto simp: checkRateLimit_def incrementConcurrentJobs_def decrementConcurrentJobs_def
          cache_get_def cache_set_def Let_def orZero_def split: if_splits)
qed

lemma orZero_nonneg:
  "\<forall>key e. entries c key = Some e \<longrightarrow> 0 \<le> c_value e \<Longrightarrow>
     0 \<le> orZero (map_option c_value (entries c key))"
  by (cases "entries c key") (auto simp: orZero_def)

text \<open>
  C10. Admission fails open. A read or write of the counter store that fails (the Redis
  call throws inside the cache service, or the client is not connected) never reaches the
  checks as an exception: the cache service answers \<open>null\<close> or \<open>false\<close>, and a counter that
  cannot be read counts as 0. Hence, for every identity and every positive limit (a limit
  of 0 denies every request, whatever the backend does): the rate-limit check allows when
  the read of its counter fails; the concurrent-jobs check allows when the read of its
  counter fails; \<open>canSubmitJob\<close> answers \<open>allowed: true\<close> when the reads of both counters
  fail. And for every limit and whatever calls fail, a request that the same store would
  admit with a backend answering every call is admitted. So no caller is denied because
  the counter backend is unavailable.
\<close>

theorem admission_fails_open:
  "(rejects c CacheGet (''ratelimit:'' @ identifierOf ip k)
      \<and> 0 < maxRequests (if truthy k then rateLimitPerApiKey cfg else rateLimitPerIp cfg) \<longrightarrow>
      allowed (fst (checkRateLimit cfg c ip k)))
   \<and> (rejects c CacheGet (''concurrent:'' @ identifierOf ip k)
      \<and> 0 < (if truthy k then maxJobsPerApiKey cfg else maxJobsPerIp cfg) \<longrightarrow>
      allowed (checkConcurrentJobs cfg c ip k))
   \<and> (rejects c CacheGet (''ratelimit:'' @ identifierOf ip k)
      \<and> rejects c CacheGet (''concurrent:'' @ identifierOf ip k)
      \<and> 0 < maxRequests (if truthy k then rateLimitPerApiKey cfg else rateLimitPerIp cfg)
      \<and> 0 < (if truthy k then maxJobsPerApiKey cfg else maxJobsPerIp cfg) \<longrightarrow>
      canSubmitJob cfg c ip k
        = (\<lparr>allowed = True, reason = None, retryAfterSeconds = None\<rparr>,
           snd (checkRateLimit cfg c ip k)))
   \<and> ((\<forall>key e. entries c key = Some e \<longrightarrow> 0 \<le> c_value e)
      \<and> allowed (fst (canSubmitJob cfg (healthy c) ip k)) \<longrightarrow>
      allowed (fst (canSubmitJob cfg c ip k)))"
proof -
  have mono: "allowed (fst (canSubmitJob cfg c ip k))"
    if nonneg: "\<forall>key e. entries c key = Some e \<longrightarrow> 0 \<le> c_value e"
      and ok: "allowed (fst (canSubmitJob cfg (healthy c) ip k))"
  proof -
    have r: "0 \<le> orZero (map_option c_value (entries c (''ratelimit:'' @ identifierOf ip k)))"
      and j: "0 \<le> orZero (map_option c_value (entries c (''concurrent:'' @ identifierOf ip k)))"
      using nonneg by (simp_all add: orZero_nonneg)
    from ok r j show ?thesis
      by (auto simp: allowed_canSubmitJob allowed_checkRateLimit allowed_checkConcurrentJobs
            healthy_def split: if_splits)
  qed
  have both: "canSubmitJob cfg c ip k
        = (\<lparr>allowed = True, reason = None, retryAfterSeconds = None\<rparr>,
           snd (checkRateLimit cfg c ip k))"
    if "rejects c CacheGet (''ratelimit:'' @ identifierOf ip k)"
       "rejects c CacheGet (''concurrent:'' @ identifierOf ip k)"
       "0 < maxRequests (if truthy k then rateLimitPerApiKey cfg else rateLimitPerIp cfg)"
       "0 < (if truthy k then maxJobsPerApiKey cfg else maxJobsPerIp cfg)"
  proof -
    have "allowed (fst (checkRateLimit cfg c ip k))"
      using that by (simp add: allowed_checkRateLimit)
    moreover have "allowed (checkConcurrentJobs cfg (snd (checkRateLimit cfg c ip k)) ip k)"
      using that by (simp add: checkConcurrentJobs_after_rate_limit allowed_checkConcurrentJobs)
    ultimately show ?thesis
      by (simp add: canSubmitJob_def Let_def split_beta)
  qed
  show ?thesis
    using mono both by (auto simp: allowed_checkRateLimit allowed_checkConcurrentJobs)
qed

text \<open>
  The backend is down (every call fails) while the store holds a rate-limit count of 4 and
  three jobs for the client: the request is admitted and nothing is written. With the
  backend up, the same store denies the request for its three jobs.
\<close>

theorem admission_fails_open_witness:
  "(let c = \<lparr>entries = [''ratelimit:10.0.0.1'' \<mapsto> \<lparr>c_value = 4, c_ttlSeconds = 60\<rparr>,
                        ''concurrent:10.0.0.1'' \<mapsto> \<lparr>c_value = 3, c_ttlSeconds = 3600\<rparr>],
             rejects = (\<lambda>op key. True)\<rparr>;
        empty = \<lparr>entries = Map.empty, rejects = (\<lambda>op key. op = CacheSet)\<rparr>
    in rejects c CacheGet (''ratelimit:'' @ identifierOf ''10.0.0.1'' None)
       \<and> rejects c CacheGet (''concurrent:'' @ identifierOf ''10.0.0.1'' None)
       \<and> 0 < maxRequests (rateLimitPerIp SECURITY_CONFIG) \<and> 0 < maxJobsPerIp SECURITY_CONFIG
       \<and> canSubmitJob SECURITY_CONFIG c ''10.0.0.1'' None
           = (\<lparr>allowed = True, reason = None, retryAfterSeconds = None\<rparr>, c)
       \<and> allowed (fst (canSubmitJob SECURITY_CONFIG (healthy c) ''10.0.0.1'' None)) = False
       \<and> allowed (fst (canSubmitJob SECURITY_CONFIG (healthy empty) ''10.0.0.1'' None))
       \<and> allowed (fst (canSubmitJob SECURITY_CONFIG empty ''10.0.0.1'' None)))"
  using admission_fails_open
    [of "\<lparr>entries = [''ratelimit:10.0.0.1'' \<mapsto> \<lparr>c_value = 4, c_ttlSeconds = 60\<rparr>,
                     ''concurrent:10.0.0.1'' \<mapsto> \<lparr>c_value = 3, c_ttlSeconds = 3600\<rparr>],
          rejects = (\<lambda>op key. True)\<rparr>" "''10.0.0.1''" None SECURITY_CONFIG]
  by (simp add: Let_def canSubmitJob_def checkRateLimit_def checkConcurrentJobs_def
        cache_get_def cache_set_def identifierOf_def truthy_def orZero_def SECURITY_CONFIG_def
        healthy_def ceilSeconds_def)

section \<open>Properties of the concurrent-jobs counter\<close>

lemma w_cache_workerProcess [simp]:
  "w_cache (snd (workerProcess fault now dstShift wid w job attemptsMade scrape d)) = w_cache w"
  by (simp add: workerProcess_def split_beta)

lemma w_db_workerProcess [simp]:
  "w_db (snd (workerProcess fault now dstShift wid w job attemptsMade scrape d))
     = snd (processScrapeJob fault now dstShift wid (w_db w) job attemptsMade scrape d)"
  by (simp add: workerProcess_def split_beta)

lemma w_cache_queueSearchJob:
  "\<not> fault JobSet \<Longrightarrow>
     w_cache (snd (queueSearchJob cfg fault None now b w q p l ip k))
       = incrementConcurrentJobs (w_cache w) (ipOrUnknown ip) k"
  by (simp add: queueSearchJob_def updateJobStatus_def Let_def)

lemma jobStatus_queueSearchJob_other:
  "b' \<noteq> b \<Longrightarrow>
     jobStatus (w_db (snd (queueSearchJob cfg fault addJobError now b w q p l ip k))) b'
       = jobStatus (w_db w) b'"
  by (simp add: queueSearchJob_def updateJobStatus_def jobStatus_def Let_def split: option.splits)

text \<open>
  C4 (the code departs from the claim). One client submits three asynchronous jobs, each
  admitted by \<open>queueSearchJob\<close> (which increments the client's counter) and then run by the
  worker to a terminal state: the first and the third complete, the second fails on its
  last attempt. \<open>decrementConcurrentJobs\<close> is called for none of them, the counter stands
  at 3, and a fourth request of the client is denied for having three concurrent jobs
  although none is running.
\<close>

theorem finished_jobs_keep_counting:
  "(let cfg = SECURITY_CONFIG;
        w0 = \<lparr>w_cache = \<lparr>entries = Map.empty, rejects = (\<lambda>op key. False)\<rparr>, w_queue = [],
              w_db = \<lparr>pages = Map.empty, searches = Map.empty, jobs = Map.empty\<rparr>\<rparr>;
        job = (\<lambda>b. \<lparr>j_batchId = b, j_query = ''honda'', j_page = 1, j_limit = 10,
                    j_clientIp = Some ''10.0.0.1'', j_apiKey = None, j_priority = Some ''normal''\<rparr>);
        submit = (\<lambda>b w. snd (queueSearchJob cfg (\<lambda>c. False) None 0 b w ''honda'' 1 10
                                 (Some ''10.0.0.1'') None));
        succeed = (\<lambda>b w. snd (workerProcess (\<lambda>c. False) 5 0 ''worker-1'' w (job b) 0
                                 (Inr [[''lot_number'' \<mapsto> JStr ''12345'']]) 3));
        fail = (\<lambda>b w. snd (workerProcess (\<lambda>c. False) 5 0 ''worker-1'' w (job b) 2
                              (Inl ''Navigation timeout'') 0));
        w3 = succeed ''b3'' (submit ''b3'' (fail ''b2'' (submit ''b2''
               (succeed ''b1'' (submit ''b1'' w0)))))
    in jobStatus (w_db w3) ''b1'' = Some (JStr ''completed'')
       \<and> jobStatus (w_db w3) ''b2'' = Some (JStr ''failed'')
       \<and> jobStatus (w_db w3) ''b3'' = Some (JStr ''completed'')
       \<and> map_option c_value (entries (w_cache w3) ''concurrent:10.0.0.1'') = Some 3
       \<and> fst (canSubmitJob cfg (w_cache w3) ''10.0.0.1'' None) =
           \<lparr>allowed = False,
            reason = Some ''Maximum 3 concurrent jobs per IP. Please wait for existing jobs to complete.'',
            retryAfterSeconds = None\<rparr>)"
proof -
  define c0 :: cache where "c0 = \<lparr>entries = Map.empty, rejects = (\<lambda>op key. False)\<rparr>"
  define c3 where "c3 = incrementConcurrentJobs (incrementConcurrentJobs
      (incrementConcurrentJobs c0 ''10.0.0.1'' None) ''10.0.0.1'' None) ''10.0.0.1'' None"
  have c3: "c3 = \<lparr>entries = [''concurrent:10.0.0.1'' \<mapsto> \<lparr>c_value = 3, c_ttlSeconds = 3600\<rparr>],
                  rejects = (\<lambda>op key. False)\<rparr>"
    by (simp add: c3_def c0_def incrementConcurrentJobs_def cache_get_def cache_set_def
          identifierOf_def orZero_def Let_def)
  have deny: "fst (canSubmitJob SECURITY_CONFIG c3 ''10.0.0.1'' None) =
           \<lparr>allowed = False,
            reason = Some ''Maximum 3 concurrent jobs per IP. Please wait for existing jobs to complete.'',
            retryAfterSeconds = None\<rparr>"
    unfolding c3
    by (simp add: canSubmitJob_def checkRateLimit_def checkConcurrentJobs_def cache_get_def
        cache_set_def identifierOf_def truthy_def orZero_def SECURITY_CONFIG_def Let_def
        numberToString_def decimal.simps digit_char_def)
  have count: "map_option c_value (entries c3 ''concurrent:10.0.0.1'') = Some 3"
    unfolding c3 by simp
  show ?thesis
    using deny count
    by (simp add: Let_def w_cache_queueSearchJob jobStatus_processScrapeJob_own
          jobStatus_processScrapeJob_other jobStatus_queueSearchJob_other ipOrUnknown_def
          c3_def c0_def)
qed

end
